theory Spec2Isabelle
  imports Complex_Main "HOL-Library.Char_ord" "HOL-Library.List_Lexorder"
    "HOL-Library.Option_ord" "HOL-Library.Multiset"
begin

section \<open>Python values used by the finance tracker\<close>

text \<open>
  The tracker is a Python program. Its exceptions are values of \<open>py_error\<close>; a function
  that can raise returns \<open>py_error + 'a\<close>, with \<open>Inl\<close> for the exception.
  \<open>OSError\<close> stands for every failure of \<open>open\<close> (a missing directory, a read-only
  location).
\<close>

datatype py_error = KeyError string | ValueError | TypeError | OverflowError | EOFError | OSError

subsection \<open>Floats\<close>

text \<open>
  A Python float is an IEEE 754 binary64 number. \<open>Finite s m e\<close> is the number
  \<open>(-1)\<^sup>s \<sqdot> m \<sqdot> 2\<^sup>e\<close> in its canonical form: \<open>m < 2\<^sup>5\<^sup>3\<close>, \<open>- 1074 \<le> e \<le> 971\<close>, and
  \<open>2\<^sup>5\<^sup>2 \<le> m\<close> unless \<open>e = - 1074\<close> (zero and the subnormal numbers). Zero is
  \<open>Finite s 0 (- 1074)\<close>. \<open>bitlen m\<close> is the number of binary digits of \<open>m\<close>.

  \<open>round_even m e\<close> rounds the exact number \<open>m \<sqdot> 2\<^sup>e\<close> (for \<open>0 < m\<close>) to the nearest
  binary64 number, ties to the even significand, and is \<open>None\<close> when the rounded number is
  beyond the largest float. Addition computes the exact sum of the operands and rounds it
  once; an overflow gives an infinity. A zero operand leaves the other operand as it is, and
  the sum of two zeros is negative only when both are.
\<close>

datatype pyfloat = Finite bool nat int | Infinity bool | NaN

fun bitlen :: "nat \<Rightarrow> nat" where
  "bitlen n = (if n = 0 then 0 else Suc (bitlen (n div 2)))"

declare bitlen.simps [simp del]

definition round_even :: "nat \<Rightarrow> int \<Rightarrow> (nat \<times> int) option" where
  "round_even m e =
     (let et = max (- 1074) (e + int (bitlen m) - 53);
          sh = nat (et - e);
          q = m div 2 ^ sh;
          r = m mod 2 ^ sh;
          q' = (if et \<le> e then m * 2 ^ nat (e - et)
                else if 2 * r > 2 ^ sh \<or> (2 * r = 2 ^ sh \<and> odd q) then q + 1 else q);
          m' = (if q' = 2 ^ 53 then 2 ^ 52 else q');
          e' = (if q' = 2 ^ 53 then et + 1 else et)
      in if e' > 971 then None else Some (m', e'))"

definition with_sign :: "bool \<Rightarrow> nat \<Rightarrow> int" where
  "with_sign s m = (if s then - int m else int m)"

fun fadd :: "pyfloat \<Rightarrow> pyfloat \<Rightarrow> pyfloat" where
  "fadd NaN _ = NaN"
| "fadd _ NaN = NaN"
| "fadd (Infinity s) (Infinity t) = (if s = t then Infinity s else NaN)"
| "fadd (Infinity s) (Finite _ _ _) = Infinity s"
| "fadd (Finite _ _ _) (Infinity t) = Infinity t"
| "fadd (Finite s m e) (Finite t n f) =
     (if m = 0 \<and> n = 0 then Finite (s \<and> t) 0 (- 1074)
      else if m = 0 then Finite t n f
      else if n = 0 then Finite s m e
      else (let g = min e f;
                z = with_sign s (m * 2 ^ nat (e - g)) + with_sign t (n * 2 ^ nat (f - g))
            in if z = 0 then Finite False 0 (- 1074)
               else (case round_even (nat \<bar>z\<bar>) g of
                       None \<Rightarrow> Infinity (z < 0)
                     | Some (m', e') \<Rightarrow> Finite (z < 0) m' e')))"

fun fneg :: "pyfloat \<Rightarrow> pyfloat" where
  "fneg (Finite s m e) = Finite (\<not> s) m e"
| "fneg (Infinity s) = Infinity (\<not> s)"
| "fneg NaN = NaN"

definition fsub :: "pyfloat \<Rightarrow> pyfloat \<Rightarrow> pyfloat" where
  "fsub a b = fadd a (fneg b)"

definition float_of_int :: "int \<Rightarrow> py_error + pyfloat" where
  "float_of_int n =
     (if n = 0 then Inr (Finite False 0 (- 1074))
      else (case round_even (nat \<bar>n\<bar>) 0 of
              None \<Rightarrow> Inl OverflowError
            | Some (m, e) \<Rightarrow> Inr (Finite (n < 0) m e)))"

subsection \<open>JSON values, numbers and the arithmetic of \<open>sum\<close>\<close>

text \<open>
  \<open>pyval\<close> are the values that \<open>json.load\<close> produces. The amount of a record is such a
  value: the constructor is annotated \<open>amount: float\<close>, but Python does not check the
  annotation, and a record read from a file carries whatever the file holds.

  \<open>fmt_2f v\<close> is the format specification \<open>:.2f\<close> of an f-string applied to \<open>v\<close>: it
  renders a float, converts an int or a bool to a float first (\<open>OverflowError\<close> for an int
  beyond the floats), raises \<open>ValueError\<close> on a string and \<open>TypeError\<close> on \<open>None\<close>, a
  list or a dict. The value is the float that is rendered; the text itself is not modelled.

  \<open>sum\<close> starts from the int \<open>0\<close> and adds the items from left to right, so its running
  total \<open>pynum\<close> is an int or a float. \<open>acc_add\<close> is \<open>total + item\<close>: ints and bools add
  exactly, an int meeting a float is converted first, and every other item raises
  \<open>TypeError\<close>. \<open>num_sub\<close> is the subtraction of two such totals.

  Remark. CPython from version 3.12 on adds the floats of a \<open>sum\<close> with a compensated
  summation, whose result can differ from the plain left-to-right sum; that variant is
  not modelled.
\<close>

datatype pyval =
    PNone
  | PBool bool
  | PInt int
  | PFloat pyfloat
  | PStr string
  | PList "pyval list"
  | PDict "(string \<times> pyval) list"

datatype pynum = NInt int | NFloat pyfloat

definition float_of_bool :: "bool \<Rightarrow> pyfloat" where
  "float_of_bool b = (if b then Finite False (2 ^ 52) (- 52) else Finite False 0 (- 1074))"

fun fmt_2f :: "pyval \<Rightarrow> py_error + pyfloat" where
  "fmt_2f (PFloat f) = Inr f"
| "fmt_2f (PInt n) = float_of_int n"
| "fmt_2f (PBool b) = Inr (float_of_bool b)"
| "fmt_2f (PStr s) = Inl ValueError"
| "fmt_2f PNone = Inl TypeError"
| "fmt_2f (PList xs) = Inl TypeError"
| "fmt_2f (PDict kvs) = Inl TypeError"

definition add_float :: "py_error + pyfloat \<Rightarrow> py_error + pyfloat \<Rightarrow> py_error + pynum" where
  "add_float a b =
     (case a of Inl e \<Rightarrow> Inl e
      | Inr f \<Rightarrow> (case b of Inl e \<Rightarrow> Inl e | Inr g \<Rightarrow> Inr (NFloat (fadd f g))))"

fun acc_add :: "pynum \<Rightarrow> pyval \<Rightarrow> py_error + pynum" where
  "acc_add (NInt a) (PInt b) = Inr (NInt (a + b))"
| "acc_add (NInt a) (PBool b) = Inr (NInt (a + (if b then 1 else 0)))"
| "acc_add (NInt a) (PFloat g) = add_float (float_of_int a) (Inr g)"
| "acc_add (NFloat f) (PInt b) = add_float (Inr f) (float_of_int b)"
| "acc_add (NFloat f) (PBool b) = add_float (Inr f) (Inr (float_of_bool b))"
| "acc_add (NFloat f) (PFloat g) = add_float (Inr f) (Inr g)"
| "acc_add _ _ = Inl TypeError"

fun sum_from :: "pynum \<Rightarrow> pyval list \<Rightarrow> py_error + pynum" where
  "sum_from acc [] = Inr acc"
| "sum_from acc (x # xs) =
     (case acc_add acc x of Inl e \<Rightarrow> Inl e | Inr acc' \<Rightarrow> sum_from acc' xs)"

definition py_sum :: "pyval list \<Rightarrow> py_error + pynum" where
  "py_sum xs = sum_from (NInt 0) xs"

definition sub_float :: "py_error + pyfloat \<Rightarrow> py_error + pyfloat \<Rightarrow> py_error + pynum" where
  "sub_float a b =
     (case a of Inl e \<Rightarrow> Inl e
      | Inr f \<Rightarrow> (case b of Inl e \<Rightarrow> Inl e | Inr g \<Rightarrow> Inr (NFloat (fsub f g))))"

fun num_sub :: "pynum \<Rightarrow> pynum \<Rightarrow> py_error + pynum" where
  "num_sub (NInt a) (NInt b) = Inr (NInt (a - b))"
| "num_sub (NInt a) (NFloat g) = sub_float (float_of_int a) (Inr g)"
| "num_sub (NFloat f) (NInt b) = sub_float (Inr f) (float_of_int b)"
| "num_sub (NFloat f) (NFloat g) = sub_float (Inr f) (Inr g)"

subsection \<open>Calendar dates\<close>

text \<open>
  A \<open>datetime.date\<close> has a year from 1 to 9999, a month and a day of that month
  (\<open>valid_date\<close>); the constructor \<open>new_date\<close> raises \<open>ValueError\<close> otherwise.
  \<open>isoformat\<close> prints \<open>%04d-%02d-%02d\<close>. Strings are lists of bytes.

  Which texts \<open>datetime.date.fromisoformat\<close> accepts depends on the version of the
  library: before Python 3.11 only the calendar form \<open>YYYY-MM-DD\<close>, from 3.11 on further
  ISO 8601 forms such as \<open>YYYYMMDD\<close> and \<open>YYYY-Www-D\<close>. The constant \<open>fromisoformat\<close>
  below is the parser of the versions before 3.11: exactly ten characters, decimal digits
  around two hyphens, then the range checks of the constructor; any other text raises
  \<open>ValueError\<close>. Every version reads the text that \<open>isoformat\<close> writes in this way, and
  this is all that is used of \<open>fromisoformat\<close>: the deserializer of the next section
  takes the parser as a parameter, so that what is proved of its failures holds for the
  parser of every version.
\<close>

record pydate =
  year :: nat
  month :: nat
  day :: nat

definition is_leap :: "nat \<Rightarrow> bool" where
  "is_leap y = (y mod 4 = 0 \<and> (y mod 100 \<noteq> 0 \<or> y mod 400 = 0))"

definition days_in_month :: "nat \<Rightarrow> nat \<Rightarrow> nat" where
  "days_in_month y m =
     (if m = 2 then (if is_leap y then 29 else 28)
      else if m = 4 \<or> m = 6 \<or> m = 9 \<or> m = 11 then 30 else 31)"

definition valid_date :: "pydate \<Rightarrow> bool" where
  "valid_date d =
     (1 \<le> year d \<and> year d \<le> 9999 \<and> 1 \<le> month d \<and> month d \<le> 12 \<and>
      1 \<le> day d \<and> day d \<le> days_in_month (year d) (month d))"

definition digit_char :: "nat \<Rightarrow> char" where
  "digit_char n = char_of (48 + n)"

fun digits :: "nat \<Rightarrow> string" where
  "digits n = (if n < 10 then [digit_char n] else digits (n div 10) @ [digit_char (n mod 10)])"

declare digits.simps [simp del]

definition zero_pad :: "nat \<Rightarrow> nat \<Rightarrow> string" where
  "zero_pad w n = replicate (w - length (digits n)) (CHR ''0'') @ digits n"

definition isoformat :: "pydate \<Rightarrow> string" where
  "isoformat d =
     zero_pad 4 (year d) @ ''-'' @ zero_pad 2 (month d) @ ''-'' @ zero_pad 2 (day d)"

definition digit_val :: "char \<Rightarrow> nat option" where
  "digit_val c =
     (let n = (of_char c :: nat) in if 48 \<le> n \<and> n \<le> 57 then Some (n - 48) else None)"

fun parse_digits :: "nat \<Rightarrow> string \<Rightarrow> nat option" where
  "parse_digits acc [] = Some acc"
| "parse_digits acc (c # cs) =
     (case digit_val c of None \<Rightarrow> None | Some v \<Rightarrow> parse_digits (acc * 10 + v) cs)"

definition new_date :: "nat \<Rightarrow> nat \<Rightarrow> nat \<Rightarrow> py_error + pydate" where
  "new_date y m d =
     (let dt = \<lparr>year = y, month = m, day = d\<rparr>
      in if valid_date dt then Inr dt else Inl ValueError)"

definition fromisoformat :: "string \<Rightarrow> py_error + pydate" where
  "fromisoformat s =
     (if length s \<noteq> 10 then Inl ValueError
      else (case parse_digits 0 (take 4 s) of
              None \<Rightarrow> Inl ValueError
            | Some y \<Rightarrow>
                if s ! 4 \<noteq> CHR ''-'' then Inl ValueError
                else (case parse_digits 0 (take 2 (drop 5 s)) of
                        None \<Rightarrow> Inl ValueError
                      | Some m \<Rightarrow>
                          if s ! 7 \<noteq> CHR ''-'' then Inl ValueError
                          else (case parse_digits 0 (drop 8 s) of
                                  None \<Rightarrow> Inl ValueError
                                | Some d \<Rightarrow> new_date y m d))))"

section \<open>FinancialRecord\<close>

text \<open>
  The class \<open>FinancialRecord\<close>. The fields have the types of the constructor's
  annotations (\<open>date: datetime.date\<close>, \<open>description: str\<close>,
  \<open>due_date: Optional[str]\<close>, \<open>record_type: str\<close>), except \<open>amount\<close>, which is any
  JSON value (see above). \<open>FinancialRecord_init\<close> is \<open>__init__\<close>: five assignments, no
  check and no \<open>raise\<close>.

  \<open>record_dict\<close> is the dictionary that \<open>to_dict\<close> builds and \<open>from_dict\<close> reads: one
  optional entry for each of the five keys, \<open>None\<close> when the key is absent. The entries
  of the date and of the amount are any JSON values; the entries of the description, the
  due date and the kind have the types of the fields they become. The entry of
  \<open>due_date\<close> is \<open>Some None\<close> when the key is present with the value \<open>null\<close>.
  \<open>dict_get entry dflt\<close> is \<open>data.get(key, dflt)\<close>, and a missing key under \<open>data[key]\<close>
  raises \<open>KeyError\<close>.

  \<open>from_dict_with parse\<close> is the body of \<open>from_dict\<close> with the library's
  \<open>datetime.date.fromisoformat\<close> as the parameter \<open>parse\<close>. It evaluates in the order of
  the source: the date is looked up and parsed first (the library raises \<open>TypeError\<close> for
  an argument that is not a string), then the description and the amount are looked up.
  \<open>from_dict\<close> is \<open>from_dict_with\<close> at the parser \<open>fromisoformat\<close>.
\<close>

record FinancialRecord =
  date :: pydate
  description :: string
  amount :: pyval
  due_date :: "string option"
  record_type :: string

definition FinancialRecord_init ::
  "pydate \<Rightarrow> string \<Rightarrow> pyval \<Rightarrow> string option \<Rightarrow> string \<Rightarrow> FinancialRecord" where
  "FinancialRecord_init dt descr amt due rtype =
     \<lparr>date = dt, description = descr, amount = amt, due_date = due, record_type = rtype\<rparr>"

record record_dict =
  dict_date :: "pyval option"
  dict_description :: "string option"
  dict_amount :: "pyval option"
  dict_due_date :: "string option option"
  dict_record_type :: "string option"

definition to_dict :: "FinancialRecord \<Rightarrow> record_dict" where
  "to_dict r =
     \<lparr>dict_date = Some (PStr (isoformat (date r))),
      dict_description = Some (description r),
      dict_amount = Some (amount r),
      dict_due_date = Some (due_date r),
      dict_record_type = Some (record_type r)\<rparr>"

definition dict_get :: "'a option \<Rightarrow> 'a \<Rightarrow> 'a" where
  "dict_get entry dflt = (case entry of None \<Rightarrow> dflt | Some v \<Rightarrow> v)"

definition from_dict_with ::
  "(string \<Rightarrow> py_error + pydate) \<Rightarrow> record_dict \<Rightarrow> py_error + FinancialRecord" where
  "from_dict_with parse data =
     (case dict_date data of
        None \<Rightarrow> Inl (KeyError ''date'')
      | Some v \<Rightarrow>
          (case v of
             PStr s \<Rightarrow>
               (case parse s of
                  Inl e \<Rightarrow> Inl e
                | Inr dt \<Rightarrow>
                    (case dict_description data of
                       None \<Rightarrow> Inl (KeyError ''description'')
                     | Some descr \<Rightarrow>
                         (case dict_amount data of
                            None \<Rightarrow> Inl (KeyError ''amount'')
                          | Some amt \<Rightarrow>
                              Inr (FinancialRecord_init dt descr amt
                                     (dict_get (dict_due_date data) None)
                                     (dict_get (dict_record_type data) ''expense'')))))
           | _ \<Rightarrow> Inl TypeError))"

definition from_dict :: "record_dict \<Rightarrow> py_error + FinancialRecord" where
  "from_dict data = from_dict_with fromisoformat data"

section \<open>FinanceTracker\<close>

text \<open>
  The state of a \<open>FinanceTracker\<close> is its two lists and the path of its file. The file
  system maps a path to the contents stored there, as the structure that \<open>json.dump\<close>
  wrote, and says which paths can be opened for writing.

  Everything printed is recorded as a list of \<open>message\<close>s. A message stands for one
  \<open>print\<close> of the source and carries the values that the printed line is built from,
  not the text: \<open>Table_header\<close> is the heading of the table (two lines), \<open>Row i r\<close> is
  the table row number \<open>i\<close> of the record \<open>r\<close>,
  \<open>Due_line\<close> the line of \<open>view_upcoming_due_dates\<close> with the description, the amount
  and the due date, \<open>Deleted\<close> the confirmation of \<open>delete_plan\<close> with the description and
  the amount of the removed record, and \<open>Prompt\<close> the prompt that \<open>input\<close> writes.

  A method that changes the tracker or the disk returns an \<open>outcome\<close>: the tracker and
  the disk afterwards, what was printed, and the exception that left the method, if any.
\<close>

record tracker =
  plans :: "FinancialRecord list"
  trash_bin :: "FinancialRecord list"
  data_file :: string

record file_contents =
  file_plans :: "record_dict list"
  file_trash_bin :: "record_dict list"

record filesystem =
  files :: "string \<rightharpoonup> file_contents"
  writable :: "string \<Rightarrow> bool"

datatype message =
    No_records
  | Table_header
  | Row nat FinancialRecord
  | No_upcoming
  | Upcoming_header
  | Due_line string pyval "string option"
  | Prompt
  | Deletion_cancelled
  | Deleted string pyval
  | Invalid_plan_number
  | Invalid_input
  | Error_saving py_error

record outcome =
  self :: tracker
  disk :: filesystem
  printed :: "message list"
  raised :: "py_error option"

definition say :: "message list \<Rightarrow> outcome \<Rightarrow> outcome" where
  "say out res = res\<lparr>printed := out @ printed res\<rparr>"

subsection \<open>Saving\<close>

text \<open>
  \<open>write_file\<close> is \<open>open(path, 'w')\<close> followed by \<open>json.dump\<close>: it raises \<open>OSError\<close>
  when the path cannot be opened for writing and replaces the contents otherwise.
  \<open>save_data\<close> wraps this in \<open>try\<close> ... \<open>except Exception\<close>, whose handler prints the
  error; so \<open>save_data\<close> itself never raises. \<open>add_record\<close> appends and saves.
\<close>

definition write_file :: "filesystem \<Rightarrow> string \<Rightarrow> file_contents \<Rightarrow> py_error + filesystem" where
  "write_file fs path c =
     (if writable fs path then Inr (fs\<lparr>files := (files fs)(path \<mapsto> c)\<rparr>) else Inl OSError)"

definition save_data :: "tracker \<Rightarrow> filesystem \<Rightarrow> outcome" where
  "save_data t fs =
     (let data = \<lparr>file_plans = map to_dict (plans t),
                   file_trash_bin = map to_dict (trash_bin t)\<rparr>
      in case write_file fs (data_file t) data of
           Inl e \<Rightarrow> \<lparr>self = t, disk = fs, printed = [Error_saving e], raised = None\<rparr>
         | Inr fs' \<Rightarrow> \<lparr>self = t, disk = fs', printed = [], raised = None\<rparr>)"

definition add_record :: "tracker \<Rightarrow> filesystem \<Rightarrow> FinancialRecord \<Rightarrow> outcome" where
  "add_record t fs r = save_data (t\<lparr>plans := plans t @ [r]\<rparr>) fs"

subsection \<open>Display of a list of records\<close>



subsection \<open>Balance\<close>

text \<open>
  \<open>calculate_balance\<close> sums the amounts of the active records whose \<open>record_type\<close> is
  \<open>income\<close>, then those whose type is \<open>expense\<close>, and subtracts. It returns the dictionary
  of the three numbers, here the record \<open>balance\<close>, together with the tracker, which it
  does not assign to.
\<close>

record balance =
  income :: pynum
  expenses :: pynum
  net_balance :: pynum

definition calculate_balance :: "tracker \<Rightarrow> (py_error + balance) \<times> tracker" where
  "calculate_balance t =
     (case py_sum (map amount (filter (\<lambda>plan. record_type plan = ''income'') (plans t))) of
        Inl e \<Rightarrow> (Inl e, t)
      | Inr total_income \<Rightarrow>
          (case py_sum (map amount (filter (\<lambda>plan. record_type plan = ''expense'') (plans t))) of
             Inl e \<Rightarrow> (Inl e, t)
           | Inr total_expenses \<Rightarrow>
               (case num_sub total_income total_expenses of
                  Inl e \<Rightarrow> (Inl e, t)
                | Inr nb \<Rightarrow>
                    (Inr \<lparr>income = total_income, expenses = total_expenses, net_balance = nb\<rparr>,
                     t))))"

subsection \<open>Upcoming due dates\<close>

text \<open>
  \<open>view_upcoming_due_dates\<close> keeps the active records with \<open>record_type == "expense"\<close>
  whose \<open>due_date\<close> is true as a condition (\<open>truthy\<close>: neither \<open>None\<close> nor the empty
  string), and prints them in the order of \<open>sorted(..., key=lambda x: x.due_date)\<close>.
  \<open>sorted\<close> builds a new list, is stable, and compares the keys with \<open><\<close>, which on
  strings is the lexicographic order of the code points; on UTF-8 bytes this is the
  lexicographic order of the bytes. \<open>sort_key\<close> is the stable sort of the library, on the
  order of \<open>string option\<close>; all keys that reach it are of the form \<open>Some s\<close>.
\<close>

definition truthy :: "string option \<Rightarrow> bool" where
  "truthy due = (case due of None \<Rightarrow> False | Some s \<Rightarrow> s \<noteq> [])"

definition upcoming_expenses :: "tracker \<Rightarrow> FinancialRecord list" where
  "upcoming_expenses t =
     filter (\<lambda>plan. record_type plan = ''expense'' \<and> truthy (due_date plan)) (plans t)"

definition sorted_by_due_date :: "FinancialRecord list \<Rightarrow> FinancialRecord list" where
  "sorted_by_due_date xs = sort_key due_date xs"

definition due_line :: "FinancialRecord \<Rightarrow> message" where
  "due_line expense = Due_line (description expense) (amount expense) (due_date expense)"

fun due_lines :: "FinancialRecord list \<Rightarrow> message list \<times> py_error option" where
  "due_lines [] = ([], None)"
| "due_lines (expense # rest) =
     (case fmt_2f (amount expense) of
        Inl e \<Rightarrow> ([], Some e)
      | Inr _ \<Rightarrow>
          (let (out, err) = due_lines rest
           in (due_line expense # out, err)))"

definition view_upcoming_due_dates :: "tracker \<Rightarrow> (message list \<times> py_error option) \<times> tracker" where
  "view_upcoming_due_dates t =
     (if upcoming_expenses t = [] then (([No_upcoming], None), t)
      else (let (out, err) = due_lines (sorted_by_due_date (upcoming_expenses t))
            in ((Upcoming_header # out, err), t)))"

subsection \<open>Deleting a record\<close>

text \<open>
  \<open>delete_plan\<close> shows the active records, returns when there are none, and otherwise
  asks for a number until one is accepted. An \<open>entry\<close> is what \<open>int(input(...))\<close> yields
  at one prompt: a number, or \<open>ValueError\<close> for a text that is not a number. The list of
  entries is the rest of the input; when it is used up, \<open>input\<close> raises \<open>EOFError\<close>, which
  the loop does not catch.

  One round of the loop with the number \<open>n\<close>: \<open>index = n - 1\<close>; \<open>index == -1\<close> cancels;
  \<open>0 <= index < len(self.plans)\<close> pops the record at \<open>index\<close>, appends it to the trash
  bin, saves and prints the confirmation; any other number prints a complaint and asks
  again. The confirmation formats the amount inside the \<open>try\<close>, so a \<open>ValueError\<close> from
  it falls to the handler for a text that is not a number, after the record was moved.
\<close>

datatype entry = Number int | Not_a_number

fun delete_loop :: "tracker \<Rightarrow> filesystem \<Rightarrow> entry list \<Rightarrow> outcome" where
  "delete_loop t fs [] = \<lparr>self = t, disk = fs, printed = [Prompt], raised = Some EOFError\<rparr>"
| "delete_loop t fs (Not_a_number # rest) = say [Prompt, Invalid_input] (delete_loop t fs rest)"
| "delete_loop t fs (Number n # rest) =
     (let index = n - 1 in
      if index = - 1 then
        \<lparr>self = t, disk = fs, printed = [Prompt, Deletion_cancelled], raised = None\<rparr>
      else if 0 \<le> index \<and> index < int (length (plans t)) then
        (let deleted_plan = plans t ! nat index;
             t' = t\<lparr>plans := take (nat index) (plans t) @ drop (Suc (nat index)) (plans t),
                     trash_bin := trash_bin t @ [deleted_plan]\<rparr>;
             saved = save_data t' fs
         in case fmt_2f (amount deleted_plan) of
              Inr _ \<Rightarrow>
                say [Prompt]
                  (saved\<lparr>printed := printed saved @
                     [Deleted (description deleted_plan) (amount deleted_plan)]\<rparr>)
            | Inl e \<Rightarrow>
                if e = ValueError then
                  say (Prompt # printed saved @ [Invalid_input])
                    (delete_loop (self saved) (disk saved) rest)
                else say [Prompt] (saved\<lparr>raised := Some e\<rparr>))
      else say [Prompt, Invalid_plan_number] (delete_loop t fs rest))"



section \<open>Notions used to state the properties\<close>

text \<open>
  \<open>gt_zero v\<close>: the value is a number and \<open>v > 0\<close> holds. \<open>float_value\<close> is the
  rational number that a finite float denotes. \<open>displayable rs\<close>: every amount in \<open>rs\<close>
  can be formatted with \<open>:.2f\<close>, that is, it is a float, a bool, or an int that converts
  to a float (an int as large as \<open>2\<^sup>1\<^sup>0\<^sup>2\<^sup>4\<close> does not).
  \<open>float_amounts rs\<close>: every amount in \<open>rs\<close> is a float, as the annotation of the
  constructor says and as the interactive entry of a record produces.
\<close>

definition gt_zero :: "pyval \<Rightarrow> bool" where
  "gt_zero v = (case v of
       PInt n \<Rightarrow> 0 < n
     | PBool b \<Rightarrow> b
     | PFloat (Finite s m e) \<Rightarrow> \<not> s \<and> 0 < m
     | PFloat (Infinity s) \<Rightarrow> \<not> s
     | _ \<Rightarrow> False)"

definition float_value :: "pyfloat \<Rightarrow> rat" where
  "float_value f = (case f of
       Finite s m e \<Rightarrow>
         (if s then - 1 else 1) * of_nat m * (if 0 \<le> e then 2 ^ nat e else 1 / 2 ^ nat (- e))
     | _ \<Rightarrow> 0)"

definition displayable :: "FinancialRecord list \<Rightarrow> bool" where
  "displayable rs = list_all (\<lambda>p. case fmt_2f (amount p) of Inl e \<Rightarrow> False | Inr f \<Rightarrow> True) rs"


section \<open>Example ledgers\<close>

text \<open>
  \<open>one_tenth\<close> and \<open>three_tenths\<close> are the floats that Python reads from \<open>0.10\<close> and
  \<open>0.30\<close>: the binary64 numbers nearest to 1/10 and 3/10 (lemmas \<open>one_tenth_nearest\<close>
  and \<open>three_tenths_nearest\<close> below). The bills carry the due dates of the example in the
  specification, and a fourth one repeats a due date. The amount of \<open>loan\<close> is a text,
  which the deserializer lets through.
\<close>

definition jan_1 :: pydate where
  "jan_1 = \<lparr>year = 2024, month = 1, day = 1\<rparr>"

definition jan_2 :: pydate where
  "jan_2 = \<lparr>year = 2024, month = 1, day = 2\<rparr>"

definition rent :: FinancialRecord where
  "rent = FinancialRecord_init jan_1 ''Rent'' (PInt 500) (Some ''2024-01-05'') ''expense''"

definition salary :: FinancialRecord where
  "salary = FinancialRecord_init jan_2 ''Salary'' (PInt 2000) None ''income''"

definition one_tenth :: pyfloat where
  "one_tenth = Finite False 7205759403792794 (- 56)"

definition three_tenths :: pyfloat where
  "three_tenths = Finite False 5404319552844595 (- 54)"



definition rent_and_salary :: tracker where
  "rent_and_salary =
     \<lparr>plans = [rent, salary], trash_bin = [], data_file = ''financial_data.json''\<rparr>"








definition legacy_dict :: record_dict where
  "legacy_dict =
     \<lparr>dict_date = Some (PStr ''2024-01-01''), dict_description = Some ''Rent'',
      dict_amount = Some (PInt 500), dict_due_date = None, dict_record_type = None\<rparr>"

definition odd_dict :: record_dict where
  "odd_dict =
     \<lparr>dict_date = Some (PStr ''2024-01-01''), dict_description = Some ''Rent'',
      dict_amount = Some (PStr ''a lot''), dict_due_date = Some None,
      dict_record_type = Some ''savings''\<rparr>"



definition read_only :: filesystem where
  "read_only = \<lparr>files = Map.empty, writable = (\<lambda>path. False)\<rparr>"


section \<open>Dates: printing and parsing are inverse\<close>

lemma digit_val_digit_char: "n < 10 \<Longrightarrow> digit_val (digit_char n) = Some n"
  by (simp add: digit_val_def digit_char_def)

lemma digit_val_Some: "digit_val c = Some v \<Longrightarrow> v < 10 \<and> c = digit_char v"
proof -
  assume a: "digit_val c = Some v"
  then have r: "48 \<le> (of_char c :: nat)" "(of_char c :: nat) \<le> 57" "v = of_char c - 48"
    by (auto simp: digit_val_def Let_def split: if_splits)
  then have "48 + v = (of_char c :: nat)" by simp
  then have "char_of (48 + v) = c" by (simp only: char_of_char)
  with r show ?thesis by (simp add: digit_char_def)
qed

lemma digit_char_0: "digit_char 0 = CHR ''0''"
  by code_simp

lemma replicate_3: "replicate 3 x = [x, x, x]"
  by (simp add: numeral_3_eq_3)

lemma replicate_2: "replicate 2 x = [x, x]"
  by (simp add: numeral_2_eq_2)

lemma step10: "d < 10 \<Longrightarrow> (x * 10 + d) div 10 = (x::nat) \<and> (x * 10 + d) mod 10 = d"
  by simp

lemma year_digits:
  "((n div 1000 * 10 + n div 100 mod 10) * 10 + n div 10 mod 10) * 10 + n mod 10 = (n::nat)"
proof -
  have a: "n div 100 = n div 10 div 10" and b: "n div 1000 = n div 10 div 10 div 10"
    by (simp_all add: div_mult2_eq [symmetric])
  have "n div 10 div 10 div 10 * 10 + n div 10 div 10 mod 10 = n div 10 div 10"
    by (rule div_mult_mod_eq)
  moreover have "n div 10 div 10 * 10 + n div 10 mod 10 = n div 10"
    by (rule div_mult_mod_eq)
  moreover have "n div 10 * 10 + n mod 10 = n"
    by (rule div_mult_mod_eq)
  ultimately show ?thesis
    unfolding a b by simp
qed

lemma digits_1: "n < 10 \<Longrightarrow> digits n = [digit_char n]"
  by (simp add: digits.simps)

lemma digits_2:
  "10 \<le> n \<Longrightarrow> n < 100 \<Longrightarrow> digits n = [digit_char (n div 10), digit_char (n mod 10)]"
  by (subst digits.simps) (simp add: digits_1)

lemma digits_3: "100 \<le> n \<Longrightarrow> n < 1000 \<Longrightarrow>
   digits n = [digit_char (n div 100), digit_char (n div 10 mod 10), digit_char (n mod 10)]"
  by (subst digits.simps) (simp add: digits_2 div_mult2_eq [symmetric])

lemma digits_4: "1000 \<le> n \<Longrightarrow> n < 10000 \<Longrightarrow>
   digits n = [digit_char (n div 1000), digit_char (n div 100 mod 10),
               digit_char (n div 10 mod 10), digit_char (n mod 10)]"
  by (subst digits.simps) (simp add: digits_3 div_mult2_eq [symmetric])

lemma zero_pad_2:
  assumes "n < 100"
  shows "zero_pad 2 n = [digit_char (n div 10), digit_char (n mod 10)]"
proof (cases "n < 10")
  case True
  then show ?thesis by (simp add: zero_pad_def digits_1 digit_char_0)
next
  case False
  with assms show ?thesis by (simp add: zero_pad_def digits_2)
qed

lemma zero_pad_4:
  assumes "n < 10000"
  shows "zero_pad 4 n = [digit_char (n div 1000), digit_char (n div 100 mod 10),
               digit_char (n div 10 mod 10), digit_char (n mod 10)]"
proof -
  consider "n < 10" | "10 \<le> n" "n < 100" | "100 \<le> n" "n < 1000" | "1000 \<le> n"
    by linarith
  then show ?thesis
  proof cases
    case 1
    then show ?thesis by (simp add: zero_pad_def digits_1 digit_char_0 replicate_3)
  next
    case 2
    then show ?thesis by (simp add: zero_pad_def digits_2 digit_char_0 replicate_2)
  next
    case 3
    then show ?thesis by (simp add: zero_pad_def digits_3 digit_char_0)
  next
    case 4
    with assms show ?thesis by (simp add: zero_pad_def digits_4)
  qed
qed

lemma parse_2: "a < 10 \<Longrightarrow> b < 10 \<Longrightarrow>
  parse_digits 0 [digit_char a, digit_char b] = Some (a * 10 + b)"
  by (simp add: digit_val_digit_char)

lemma parse_4: "a < 10 \<Longrightarrow> b < 10 \<Longrightarrow> c < 10 \<Longrightarrow> d < 10 \<Longrightarrow>
  parse_digits 0 [digit_char a, digit_char b, digit_char c, digit_char d]
    = Some (((a * 10 + b) * 10 + c) * 10 + d)"
  by (simp add: digit_val_digit_char)

lemma parse_2_inv:
  assumes "parse_digits 0 [a, b] = Some n"
  shows "n < 100 \<and> [a, b] = [digit_char (n div 10), digit_char (n mod 10)]"
proof -
  from assms obtain x y where x: "digit_val a = Some x" and y: "digit_val b = Some y"
    and n: "n = x * 10 + y"
    by (auto split: option.splits)
  from x y have "x < 10" "y < 10" "a = digit_char x" "b = digit_char y"
    using digit_val_Some by blast+
  with n show ?thesis by simp
qed

lemma parse_4_inv:
  assumes "parse_digits 0 [a, b, c, d] = Some n"
  shows "n < 10000 \<and> [a, b, c, d] = [digit_char (n div 1000), digit_char (n div 100 mod 10),
               digit_char (n div 10 mod 10), digit_char (n mod 10)]"
proof -
  from assms obtain x y z w where x: "digit_val a = Some x" and y: "digit_val b = Some y"
    and z: "digit_val c = Some z" and w: "digit_val d = Some w"
    and n: "n = ((x * 10 + y) * 10 + z) * 10 + w"
    by (auto split: option.splits)
  from x y z w have lt: "x < 10" "y < 10" "z < 10" "w < 10"
    and ch: "a = digit_char x" "b = digit_char y" "c = digit_char z" "d = digit_char w"
    using digit_val_Some by blast+
  have d1: "n div 10 = (x * 10 + y) * 10 + z" and m1: "n mod 10 = w"
    unfolding n using step10 [OF lt(4)] by blast+
  have d2': "n div 10 div 10 = x * 10 + y" and m2: "n div 10 mod 10 = z"
    unfolding d1 using step10 [OF lt(3)] by blast+
  have d3': "n div 10 div 10 div 10 = x" and m3': "n div 10 div 10 mod 10 = y"
    unfolding d2' using step10 [OF lt(2)] by blast+
  have e2: "n div 100 = n div 10 div 10" and e3: "n div 1000 = n div 10 div 10 div 10"
    by (simp_all add: div_mult2_eq [symmetric])
  have d3: "n div 1000 = x" and m3: "n div 100 mod 10 = y"
    using d3' m3' e2 e3 by simp_all
  have "n < 10000" using lt n by simp
  with ch d3 m3 m2 m1 show ?thesis by simp
qed

lemma length_10:
  assumes "length s = 10"
  shows "s = [s ! 0, s ! 1, s ! 2, s ! 3, s ! 4, s ! 5, s ! 6, s ! 7, s ! 8, s ! 9]"
proof -
  from assms obtain a0 a1 a2 a3 a4 a5 a6 a7 a8 a9
    where "s = [a0, a1, a2, a3, a4, a5, a6, a7, a8, a9]"
    by (auto simp: eval_nat_numeral length_Suc_conv)
  then show ?thesis by simp
qed

lemma days_in_month_le: "days_in_month y m \<le> 31"
  by (simp add: days_in_month_def)

lemma isoformat_chars:
  assumes "valid_date d"
  shows "isoformat d =
      [digit_char (year d div 1000), digit_char (year d div 100 mod 10),
       digit_char (year d div 10 mod 10), digit_char (year d mod 10), CHR ''-'',
       digit_char (month d div 10), digit_char (month d mod 10), CHR ''-'',
       digit_char (day d div 10), digit_char (day d mod 10)]"
proof -
  from assms have "year d < 10000" "month d < 100" "day d < 100"
    using days_in_month_le [of "year d" "month d"] by (auto simp: valid_date_def)
  then show ?thesis
    by (simp add: isoformat_def zero_pad_4 zero_pad_2)
qed

lemma fromisoformat_isoformat:
  assumes "valid_date d"
  shows "fromisoformat (isoformat d) = Inr d"
proof -
  from assms have y: "year d < 10000" and m: "month d < 100" and dd: "day d < 100"
    using days_in_month_le [of "year d" "month d"] by (auto simp: valid_date_def)
  have py: "parse_digits 0 [digit_char (year d div 1000), digit_char (year d div 100 mod 10),
       digit_char (year d div 10 mod 10), digit_char (year d mod 10)] = Some (year d)"
    using y year_digits [of "year d"] by (subst parse_4) simp_all
  have pm: "parse_digits 0 [digit_char (month d div 10), digit_char (month d mod 10)]
      = Some (month d)"
    using m by (subst parse_2) auto
  have pd: "parse_digits 0 [digit_char (day d div 10), digit_char (day d mod 10)]
      = Some (day d)"
    using dd by (subst parse_2) auto
  have same: "\<lparr>year = year d, month = month d, day = day d\<rparr> = d"
    by simp
  show ?thesis
    unfolding isoformat_chars [OF assms] fromisoformat_def using assms
    by (simp add: new_date_def same py pm pd del: parse_digits.simps)
qed

lemma fromisoformat_Inr:
  assumes "fromisoformat s = Inr d"
  shows "valid_date d \<and> s = isoformat d"
proof -
  from assms have len: "length s = 10"
    by (auto simp: fromisoformat_def split: if_splits)
  define y4 where "y4 = [s ! 0, s ! 1, s ! 2, s ! 3]"
  define m2 where "m2 = [s ! 5, s ! 6]"
  define d2 where "d2 = [s ! 8, s ! 9]"
  have s: "s = y4 @ [s ! 4] @ m2 @ [s ! 7] @ d2"
    unfolding y4_def m2_def d2_def using length_10 [OF len] by simp
  have t4: "take 4 s = y4" and t2: "take 2 (drop 5 s) = m2" and t8: "drop 8 s = d2"
    by (subst s, simp add: y4_def m2_def d2_def)+
  from assms len obtain y m dd where
    py: "parse_digits 0 y4 = Some y" and s4: "s ! 4 = CHR ''-''" and
    pm: "parse_digits 0 m2 = Some m" and s7: "s ! 7 = CHR ''-''" and
    pd: "parse_digits 0 d2 = Some dd" and nd: "new_date y m dd = Inr d"
    unfolding fromisoformat_def t4 t2 t8
    by (auto split: option.splits if_splits)
  from nd have v: "valid_date d" and d: "d = \<lparr>year = y, month = m, day = dd\<rparr>"
    by (auto simp: new_date_def Let_def split: if_splits)
  from py have y4: "y4 = [digit_char (y div 1000), digit_char (y div 100 mod 10),
               digit_char (y div 10 mod 10), digit_char (y mod 10)]"
    unfolding y4_def using parse_4_inv by blast
  from pm have m2: "m2 = [digit_char (m div 10), digit_char (m mod 10)]"
    unfolding m2_def using parse_2_inv by blast
  from pd have d2: "d2 = [digit_char (dd div 10), digit_char (dd mod 10)]"
    unfolding d2_def using parse_2_inv by blast
  have "s = isoformat d"
    by (subst s, subst isoformat_chars [OF v]) (simp add: y4 m2 d2 s4 s7 d)
  with v show ?thesis by simp
qed

lemma fromisoformat_iff: "fromisoformat s = Inr d \<longleftrightarrow> valid_date d \<and> s = isoformat d"
  using fromisoformat_Inr fromisoformat_isoformat by blast

section \<open>Record construction and the structured form\<close>

lemma valid_jan_1: "valid_date jan_1"
  by (simp add: valid_date_def jan_1_def days_in_month_def)

lemma fromisoformat_jan_1: "fromisoformat ''2024-01-01'' = Inr jan_1"
  by (simp add: fromisoformat_def digit_val_def new_date_def valid_date_def days_in_month_def
      jan_1_def Let_def)

text \<open>
  \<^bold>\<open>C1\<close> (amended). The constructor never fails and checks nothing: the record it builds
  holds the description and the amount exactly as they were passed, so its amount is
  greater than zero precisely when the amount passed in was. (The checks for an empty
  description and for \<open>amount <= 0\<close> are made by the interactive entry of a record, before
  the constructor is called.)
\<close>

theorem init_stores_arguments:
  "description (FinancialRecord_init dt descr amt due rtype) = descr \<and>
   amount (FinancialRecord_init dt descr amt due rtype) = amt \<and>
   gt_zero (amount (FinancialRecord_init dt descr amt due rtype)) = gt_zero amt"
  by (simp add: FinancialRecord_init_def)

text \<open>
  \<^bold>\<open>C1\<close> as stated fails: the constructor builds a record from an empty description and
  the amount \<open>-5\<close>, and the amount of that record is not greater than zero.
\<close>

theorem init_accepts_invalid:
  "description (FinancialRecord_init jan_1 [] (PInt (- 5)) None ''expense'') = [] \<and>
   amount (FinancialRecord_init jan_1 [] (PInt (- 5)) None ''expense'') = PInt (- 5) \<and>
   \<not> gt_zero (amount (FinancialRecord_init jan_1 [] (PInt (- 5)) None ''expense''))"
  by (simp add: FinancialRecord_init_def gt_zero_def)

text \<open>
  \<^bold>\<open>C7\<close> (amended). The constructor stores the due date that it is given, whatever the
  kind of the record: a record of kind income has no due date only when none was passed.
\<close>

theorem init_keeps_due_date:
  "due_date (FinancialRecord_init dt descr amt due rtype) = due"
  by (simp add: FinancialRecord_init_def)

text \<open>
  \<^bold>\<open>C7\<close> as stated fails: an income record constructed with the due date \<open>2024-01-05\<close>
  has that due date.
\<close>

theorem income_keeps_due_date:
  "record_type (FinancialRecord_init jan_2 ''Salary'' (PInt 2000) (Some ''2024-01-05'') ''income'')
     = ''income'' \<and>
   due_date (FinancialRecord_init jan_2 ''Salary'' (PInt 2000) (Some ''2024-01-05'') ''income'')
     = Some ''2024-01-05''"
  by (simp add: FinancialRecord_init_def)

text \<open>
  \<^bold>\<open>C5\<close>. Serializing a record and deserializing the result gives back the record, equal
  in all fields. This holds for every record whose date is a calendar date, whatever its
  description, amount, kind and due date, so in particular for the valid records of the
  claim.
\<close>

theorem record_round_trip: "valid_date (date r) \<Longrightarrow> from_dict (to_dict r) = Inr r"
  by (simp add: from_dict_def from_dict_with_def to_dict_def fromisoformat_isoformat
      FinancialRecord_init_def dict_get_def)

theorem record_round_trip_witness:
  "valid_date (date rent) \<and> from_dict (to_dict rent) = Inr rent"
proof -
  have v: "valid_date (date rent)"
    by (simp add: rent_def FinancialRecord_init_def valid_jan_1)
  from record_round_trip [OF v] v show ?thesis by simp
qed

text \<open>
  \<^bold>\<open>C6\<close> (amended). Whatever parser the library provides, deserializing fails exactly
  when the date is missing (\<open>KeyError\<close>), or is not a string (\<open>TypeError\<close>), or is a string
  that the parser rejects (the parser's error), or the description or the amount is
  missing (\<open>KeyError\<close>). Neither the amount nor the kind tag is checked: a record that is
  returned holds the amount of the structured form, whatever value that is, and its kind
  is the tag that is present, whatever text that is, or \<open>expense\<close> when the tag is absent.
\<close>

theorem from_dict_outcome:
  "((\<exists>e. from_dict_with parse data = Inl e) \<longleftrightarrow>
      (dict_date data = None \<or>
       (\<exists>v. dict_date data = Some v \<and> (\<forall>s. v \<noteq> PStr s)) \<or>
       (\<exists>s e. dict_date data = Some (PStr s) \<and> parse s = Inl e) \<or>
       dict_description data = None \<or> dict_amount data = None)) \<and>
   (dict_date data = None \<longrightarrow> from_dict_with parse data = Inl (KeyError ''date'')) \<and>
   (\<forall>v. dict_date data = Some v \<and> (\<forall>s. v \<noteq> PStr s) \<longrightarrow>
      from_dict_with parse data = Inl TypeError) \<and>
   (\<forall>s e. dict_date data = Some (PStr s) \<and> parse s = Inl e \<longrightarrow>
      from_dict_with parse data = Inl e) \<and>
   (\<forall>s d. dict_date data = Some (PStr s) \<and> parse s = Inr d \<and>
      (dict_description data = None \<or> dict_amount data = None) \<longrightarrow>
      from_dict_with parse data =
        Inl (KeyError (if dict_description data = None then ''description'' else ''amount''))) \<and>
   (\<forall>r. from_dict_with parse data = Inr r \<longrightarrow>
      dict_amount data = Some (amount r) \<and>
      record_type r = (case dict_record_type data of None \<Rightarrow> ''expense'' | Some k \<Rightarrow> k))"
proof -
  have fails: "(\<exists>e. from_dict_with parse data = Inl e) \<longleftrightarrow>
      (dict_date data = None \<or>
       (\<exists>v. dict_date data = Some v \<and> (\<forall>s. v \<noteq> PStr s)) \<or>
       (\<exists>s e. dict_date data = Some (PStr s) \<and> parse s = Inl e) \<or>
       dict_description data = None \<or> dict_amount data = None)"
    by (auto simp: from_dict_with_def split: option.splits sum.splits pyval.splits)
  have e1: "dict_date data = None \<longrightarrow> from_dict_with parse data = Inl (KeyError ''date'')"
    by (simp add: from_dict_with_def)
  have e2: "\<forall>v. dict_date data = Some v \<and> (\<forall>s. v \<noteq> PStr s) \<longrightarrow>
      from_dict_with parse data = Inl TypeError"
    by (auto simp: from_dict_with_def split: pyval.splits)
  have e3: "\<forall>s e. dict_date data = Some (PStr s) \<and> parse s = Inl e \<longrightarrow>
      from_dict_with parse data = Inl e"
    by (simp add: from_dict_with_def)
  have e4: "\<forall>s d. dict_date data = Some (PStr s) \<and> parse s = Inr d \<and>
      (dict_description data = None \<or> dict_amount data = None) \<longrightarrow>
      from_dict_with parse data =
        Inl (KeyError (if dict_description data = None then ''description'' else ''amount''))"
    by (auto simp: from_dict_with_def split: option.splits)
  have fields: "\<forall>r. from_dict_with parse data = Inr r \<longrightarrow>
      dict_amount data = Some (amount r) \<and>
      record_type r = (case dict_record_type data of None \<Rightarrow> ''expense'' | Some k \<Rightarrow> k)"
    by (auto simp: from_dict_with_def FinancialRecord_init_def dict_get_def
        split: option.splits sum.splits pyval.splits)
  from fails e1 e2 e3 e4 fields show ?thesis by blast
qed

theorem from_dict_outcome_witness:
  "from_dict_with fromisoformat legacy_dict =
     Inr (FinancialRecord_init jan_1 ''Rent'' (PInt 500) None ''expense'') \<and>
   dict_amount legacy_dict =
     Some (amount (FinancialRecord_init jan_1 ''Rent'' (PInt 500) None ''expense'')) \<and>
   record_type (FinancialRecord_init jan_1 ''Rent'' (PInt 500) None ''expense'') = ''expense'' \<and>
   from_dict_with fromisoformat (legacy_dict\<lparr>dict_date := Some (PInt 20240101)\<rparr>) =
     Inl TypeError \<and>
   from_dict_with fromisoformat (legacy_dict\<lparr>dict_date := Some (PStr ''2024-02-30'')\<rparr>) =
     Inl ValueError \<and>
   from_dict_with fromisoformat (legacy_dict\<lparr>dict_date := None\<rparr>) = Inl (KeyError ''date'') \<and>
   from_dict_with fromisoformat (legacy_dict\<lparr>dict_amount := None\<rparr>) =
     Inl (KeyError ''amount'')"
proof -
  have ev: "from_dict_with fromisoformat legacy_dict =
      Inr (FinancialRecord_init jan_1 ''Rent'' (PInt 500) None ''expense'')"
    by (simp add: from_dict_with_def legacy_dict_def fromisoformat_jan_1 dict_get_def)
  have feb: "fromisoformat ''2024-02-30'' = Inl ValueError"
    by (simp add: fromisoformat_def digit_val_def new_date_def valid_date_def
        days_in_month_def is_leap_def Let_def)
  have kind: "dict_record_type legacy_dict = None"
    by (simp add: legacy_dict_def)
  have a: "dict_amount legacy_dict =
     Some (amount (FinancialRecord_init jan_1 ''Rent'' (PInt 500) None ''expense'')) \<and>
     record_type (FinancialRecord_init jan_1 ''Rent'' (PInt 500) None ''expense'') = ''expense''"
    using from_dict_outcome [of fromisoformat legacy_dict] ev kind by simp
  have b: "from_dict_with fromisoformat (legacy_dict\<lparr>dict_date := Some (PInt 20240101)\<rparr>) =
     Inl TypeError"
    using from_dict_outcome
      [of fromisoformat "legacy_dict\<lparr>dict_date := Some (PInt 20240101)\<rparr>"]
    by simp
  have c: "from_dict_with fromisoformat
      (legacy_dict\<lparr>dict_date := Some (PStr ''2024-02-30'')\<rparr>) = Inl ValueError"
    using from_dict_outcome
      [of fromisoformat "legacy_dict\<lparr>dict_date := Some (PStr ''2024-02-30'')\<rparr>"] feb
    by simp
  have d: "from_dict_with fromisoformat (legacy_dict\<lparr>dict_date := None\<rparr>) =
      Inl (KeyError ''date'')"
    using from_dict_outcome [of fromisoformat "legacy_dict\<lparr>dict_date := None\<rparr>"]
    by simp
  have e: "from_dict_with fromisoformat (legacy_dict\<lparr>dict_amount := None\<rparr>) =
      Inl (KeyError ''amount'')"
    using from_dict_outcome [of fromisoformat "legacy_dict\<lparr>dict_amount := None\<rparr>"]
      fromisoformat_jan_1
    by (simp add: legacy_dict_def)
  from ev a b c d e show ?thesis by blast
qed

text \<open>
  \<^bold>\<open>C6\<close> as stated fails: a structured form whose amount is the text \<open>a lot\<close> and whose
  kind tag is \<open>savings\<close> is deserialized without an error, into a record with that amount
  and that kind. (Its date \<open>2024-01-01\<close> is read alike by the parser of every version.)
\<close>

theorem from_dict_accepts_any_amount_and_kind:
  "from_dict odd_dict =
     Inr \<lparr>date = jan_1, description = ''Rent'', amount = PStr ''a lot'', due_date = None,
          record_type = ''savings''\<rparr>"
  by (simp add: from_dict_def from_dict_with_def odd_dict_def fromisoformat_jan_1 dict_get_def
      FinancialRecord_init_def)

section \<open>Balance\<close>

lemma case_sum_Inr: "(case x of Inl e \<Rightarrow> False | Inr f \<Rightarrow> True) \<longleftrightarrow> (\<exists>f. x = Inr f)"
  by (cases x) auto


lemma displayable_iff: "displayable rs \<longleftrightarrow> (\<forall>p\<in>set rs. \<exists>f. fmt_2f (amount p) = Inr f)"
  by (simp add: displayable_def list_all_iff case_sum_Inr)








lemma one_tenth_nearest: "\<bar>float_value one_tenth - 1 / 10\<bar> < 1 / 2 ^ 57"
  by (simp add: float_value_def one_tenth_def)

lemma three_tenths_nearest: "\<bar>float_value three_tenths - 3 / 10\<bar> < 1 / 2 ^ 55"
  by (simp add: float_value_def three_tenths_def)












text \<open>
  The scenario of the specification: rent of 500 and a salary of 2000 give the balance
  2000, 500 and 1500, all exact, since amounts that are ints add as ints.
\<close>

lemma balance_rent_and_salary:
  "fst (calculate_balance rent_and_salary) =
     Inr \<lparr>income = NInt 2000, expenses = NInt 500, net_balance = NInt 1500\<rparr>"
  by (simp add: calculate_balance_def rent_and_salary_def rent_def salary_def
      FinancialRecord_init_def py_sum_def)


section \<open>Display, due dates and operations that only read\<close>



lemma displayable_subset: "displayable xs \<Longrightarrow> set ys \<subseteq> set xs \<Longrightarrow> displayable ys"
  by (auto simp: displayable_iff)















text \<open>
  \<^bold>\<open>C10\<close>. \<open>calculate_balance\<close> and \<open>view_upcoming_due_dates\<close> leave the tracker as it
  was, the active records and the trash bin included, whether they return or raise.
\<close>

theorem read_only_operations:
  "snd (calculate_balance t) = t \<and> snd (view_upcoming_due_dates t) = t"
  by (simp add: calculate_balance_def view_upcoming_due_dates_def split: sum.splits prod.splits)

section \<open>Deleting\<close>




lemma delete_loop_cancel:
  "delete_loop t fs (Number 0 # rest) =
     \<lparr>self = t, disk = fs, printed = [Prompt, Deletion_cancelled], raised = None\<rparr>"
  by simp











section \<open>Saving\<close>

text \<open>
  \<^bold>\<open>C9\<close> (amended). When the file cannot be written, \<open>save_data\<close> catches the error,
  prints it and returns normally, and so does \<open>add_record\<close>: no error reaches the caller.
  The tracker in memory is as it should be (with the new record appended, for
  \<open>add_record\<close>), and the disk is unchanged.
\<close>

theorem save_failure_is_printed:
  assumes "\<not> writable fs (data_file t)"
  shows "save_data t fs = \<lparr>self = t, disk = fs, printed = [Error_saving OSError], raised = None\<rparr> \<and>
         add_record t fs r =
           \<lparr>self = t\<lparr>plans := plans t @ [r]\<rparr>, disk = fs, printed = [Error_saving OSError],
            raised = None\<rparr>"
  using assms by (simp add: save_data_def add_record_def write_file_def)

theorem save_failure_is_printed_witness:
  "\<not> writable read_only (data_file rent_and_salary) \<and>
   save_data rent_and_salary read_only =
     \<lparr>self = rent_and_salary, disk = read_only, printed = [Error_saving OSError],
      raised = None\<rparr>"
proof -
  have ro: "\<not> writable read_only (data_file rent_and_salary)"
    by (simp add: read_only_def)
  from save_failure_is_printed [OF ro] ro show ?thesis by simp
qed

text \<open>
  \<^bold>\<open>C9\<close> as stated fails: saving to a location that cannot be written raises nothing
  to the caller; the failure is only printed.
\<close>

theorem save_failure_not_raised:
  "\<not> writable read_only (data_file rent_and_salary) \<and>
   raised (save_data rent_and_salary read_only) = None \<and>
   printed (save_data rent_and_salary read_only) = [Error_saving OSError]"
  by (simp add: save_data_def write_file_def read_only_def)

end
